theory Spec2Isabelle
  imports Main "HOL-Library.Word"
begin

section \<open>Data model of \<open>prefect/tasks/shell.py\<close>\<close>

text \<open>
  Python \<open>str\<close> values are \<open>string\<close>, \<open>bytes\<close> values are lists of 8-bit words, a
  \<open>dict\<close> from variable names to values is a map. Dict objects are mutable and are
  passed by reference, so they live in a store indexed by addresses; \<open>os.environ\<close>,
  the override mappings and the copy made by \<open>run\<close> are all entries of that store.
\<close>

type_synonym bytes = "8 word list"
type_synonym environment = "string \<rightharpoonup> string"
type_synonym addr = nat

text \<open>The attributes \<open>__init__\<close> stores on the task instance; \<open>None\<close> is Python's \<open>None\<close>.\<close>

record ShellTask =
  command :: "string option"
  cd :: "string option"
  env :: "addr option"
  shell :: string

text \<open>
  \<open>ShellTask.__init__(command=None, cd=None, env=None, shell="bash")\<close>: an omitted
  \<open>shell\<close> argument (\<open>None\<close> here) takes the default of the signature.
\<close>

definition init :: "string option \<Rightarrow> string option \<Rightarrow> addr option \<Rightarrow> string option \<Rightarrow> ShellTask" where
  "init command_arg cd_arg env_arg shell_arg =
     \<lparr>command = command_arg, cd = cd_arg, env = env_arg,
      shell = (case shell_arg of None \<Rightarrow> ''bash'' | Some sh \<Rightarrow> sh)\<rparr>"

subsection \<open>The process-spawn primitive\<close>

text \<open>
  What \<open>subprocess\<close> is asked to do with each of the child's standard streams;
  \<open>Inherit\<close> is the keyword left at its default \<open>None\<close> (the child shares the
  parent's stream).
\<close>

datatype stdio = Inherit | PIPE | STDOUT | DEVNULL

record popen_call =
  args :: "string list"
  stdin :: stdio
  stdout :: stdio
  stderr :: stdio
  child_env :: environment

text \<open>
  A child either runs to completion, giving its return code and the bytes read from the
  captured pipe, or cannot be started, which the operating system reports with an error
  number. What a child does is not decided by this program: it is a parameter, a function
  of the calls made before and of the call itself.
\<close>

datatype outcome = Exited int bytes | SpawnFailed nat

type_synonym system = "popen_call list \<Rightarrow> popen_call \<Rightarrow> outcome"

datatype exn =
    TypeError string
  | CalledProcessError int bytes
  | OSError nat
  | FAIL string

subsection \<open>Program state\<close>

record state =
  self :: ShellTask
  dicts :: "addr \<Rightarrow> environment"
  next_addr :: addr
  popen_calls :: "popen_call list"
  open_children :: nat

text \<open>\<open>os.environ\<close> is one object for the life of the process.\<close>

definition os_environ :: addr where
  "os_environ = 0"

text \<open>\<open>d.copy()\<close>: a new dict object with the contents of \<open>d\<close>.\<close>

definition dict_copy :: "addr \<Rightarrow> state \<Rightarrow> addr \<times> state" where
  "dict_copy a s =
     (next_addr s,
      s\<lparr>dicts := (dicts s)(next_addr s := dicts s a), next_addr := Suc (next_addr s)\<rparr>)"

text \<open>\<open>d.update(other)\<close>: every key of \<open>other\<close> is stored into the object \<open>d\<close>, in place.\<close>

definition dict_update :: "addr \<Rightarrow> environment \<Rightarrow> state \<Rightarrow> state" where
  "dict_update a other s = s\<lparr>dicts := (dicts s)(a := dicts s a ++ other)\<rparr>"

text \<open>
  \<open>subprocess.Popen\<close>: the call is made; a child that cannot be started raises
  \<open>OSError\<close> and leaves nothing open, a child that starts is held by the parent (its
  process handle and the pipe to it) until it is waited for.
\<close>

definition popen :: "system \<Rightarrow> popen_call \<Rightarrow> state \<Rightarrow> (exn + int \<times> bytes) \<times> state" where
  "popen sys call s =
     (case sys (popen_calls s) call of
        SpawnFailed e \<Rightarrow> (Inl (OSError e), s\<lparr>popen_calls := popen_calls s @ [call]\<rparr>)
      | Exited rc out \<Rightarrow>
          (Inr (rc, out),
           s\<lparr>popen_calls := popen_calls s @ [call], open_children := Suc (open_children s)\<rparr>))"

text \<open>Leaving the \<open>with Popen(...)\<close> block: the pipe is closed and the child waited for.\<close>

definition popen_exit :: "state \<Rightarrow> state" where
  "popen_exit s = s\<lparr>open_children := open_children s - 1\<rparr>"

text \<open>
  \<open>subprocess.check_output(args, stderr=..., env=...)\<close>: the standard output is
  captured through a pipe, \<open>stdin\<close> is not passed, the environment is the mapping given.
  The call blocks until the child has exited and all of its output is read. A return code
  other than 0 raises \<open>CalledProcessError\<close> with the return code and the captured
  output, and otherwise the captured output is returned.
\<close>

definition check_output ::
  "system \<Rightarrow> string list \<Rightarrow> stdio \<Rightarrow> environment \<Rightarrow> state \<Rightarrow> (exn + bytes) \<times> state" where
  "check_output sys argv err envv s =
     (case popen sys \<lparr>args = argv, stdin = Inherit, stdout = PIPE, stderr = err,
                       child_env = envv\<rparr> s of
        (Inl e, s') \<Rightarrow> (Inl e, s')
      | (Inr (rc, out), s') \<Rightarrow>
          if rc \<noteq> 0 then (Inl (CalledProcessError rc out), popen_exit s')
          else (Inr out, popen_exit s'))"

subsection \<open>Rendering of the failure message\<close>

text \<open>\<open>str(n)\<close> for an \<open>int\<close>: decimal digits, with a leading minus sign below zero.\<close>

definition digit_char :: "nat \<Rightarrow> char" where
  "digit_char d = ''0123456789abcdef'' ! d"

fun str_nat :: "nat \<Rightarrow> string" where
  "str_nat n = (if n < 10 then [digit_char n] else str_nat (n div 10) @ [digit_char (n mod 10)])"

definition str_int :: "int \<Rightarrow> string" where
  "str_int i = (if i < 0 then CHR ''-'' # str_nat (nat (- i)) else str_nat (nat i))"

text \<open>
  \<open>str(b)\<close> for a \<open>bytes\<close> value is its \<open>repr\<close>: the letter b, a quote, each byte
  escaped, the quote again. The quote is the double quote when the value holds a single
  quote and no double quote, and the single quote otherwise.
\<close>

definition repr_quote :: "bytes \<Rightarrow> 8 word" where
  "repr_quote b = (if 0x27 \<in> set b \<and> 0x22 \<notin> set b then 0x22 else 0x27)"

definition byte_char :: "8 word \<Rightarrow> char" where
  "byte_char c = char_of (unat c)"

definition repr_byte :: "8 word \<Rightarrow> 8 word \<Rightarrow> string" where
  "repr_byte quote c =
     (if c = quote \<or> c = 0x5C then [CHR 0x5C, byte_char c]
      else if c = 0x09 then [CHR 0x5C, CHR ''t'']
      else if c = 0x0A then [CHR 0x5C, CHR ''n'']
      else if c = 0x0D then [CHR 0x5C, CHR ''r'']
      else if c < 0x20 \<or> c \<ge> 0x7F then
        [CHR 0x5C, CHR ''x'', digit_char (unat c div 16), digit_char (unat c mod 16)]
      else [byte_char c])"

definition repr_bytes :: "bytes \<Rightarrow> string" where
  "repr_bytes b =
     CHR ''b'' # byte_char (repr_quote b) # concat (map (repr_byte (repr_quote b)) b)
       @ [byte_char (repr_quote b)]"

text \<open>\<open>"Command failed with exit code {0}: {1}".format(returncode, output)\<close>\<close>

definition failure_message :: "int \<Rightarrow> bytes \<Rightarrow> string" where
  "failure_message rc out =
     ''Command failed with exit code '' @ str_int rc @ '': '' @ repr_bytes out"

section \<open>\<open>ShellTask.run\<close>\<close>

definition missing_command :: string where
  "missing_command =
     ''run() missing required argument: '' @ [CHR 0x27] @ ''command'' @ [CHR 0x27]"

text \<open>
  The body of \<open>run\<close>, called with the values the decorator has settled. \<open>env or {}\<close>
  is the mapping given unless it is \<open>None\<close> or empty, and a new empty dict then, whose
  contents are those of the empty mapping in both cases.
\<close>

definition run_body ::
  "system \<Rightarrow> string option \<Rightarrow> addr option \<Rightarrow> state \<Rightarrow> (exn + bytes) \<times> state" where
  "run_body sys command_arg env_arg s =
     (case command_arg of
        None \<Rightarrow> (Inl (TypeError missing_command), s)
      | Some c \<Rightarrow>
          (let command' = (case cd (self s) of
                             None \<Rightarrow> c
                           | Some d \<Rightarrow> (''cd '' @ d @ '' && '') @ c);
               (current_env, s1) = dict_copy os_environ s;
               s2 = dict_update current_env
                      (case env_arg of None \<Rightarrow> Map.empty | Some a \<Rightarrow> dicts s1 a) s1
           in case check_output sys [shell (self s2), ''-c'', command'] STDOUT
                     (dicts s2 current_env) s2 of
                (Inl (CalledProcessError rc out), s3) \<Rightarrow> (Inl (FAIL (failure_message rc out)), s3)
              | (Inl e, s3) \<Rightarrow> (Inl e, s3)
              | (Inr out, s3) \<Rightarrow> (Inr out, s3)))"

text \<open>
  Modelled from the spec: \<open>prefect.utilities.tasks.defaults_from_attrs\<close> is not among the
  sources. The spec's interface contract for it: when a parameter is omitted at call time
  it resolves to the value captured at construction time; a call-time value wins over the
  configuration default, and the configuration default wins over absence. An omitted
  argument is \<open>None\<close>.
\<close>

definition defaults_from_attrs :: "'a option \<Rightarrow> 'a option \<Rightarrow> 'a option" where
  "defaults_from_attrs call_value attr_value =
     (case call_value of Some v \<Rightarrow> Some v | None \<Rightarrow> attr_value)"

text \<open>The method as callers see it: \<open>@defaults_from_attrs("command", "env")\<close> around the body.\<close>

definition run ::
  "system \<Rightarrow> string option \<Rightarrow> addr option \<Rightarrow> state \<Rightarrow> (exn + bytes) \<times> state" where
  "run sys command_arg env_arg s =
     run_body sys (defaults_from_attrs command_arg (command (self s)))
       (defaults_from_attrs env_arg (env (self s))) s"


section \<open>Well-formed states and example inputs\<close>

text \<open>
  A reference held by the program points to an object that exists: its address is below
  the next address the store hands out.
\<close>

definition allocated :: "state \<Rightarrow> addr option \<Rightarrow> bool" where
  "allocated s r = (case r of None \<Rightarrow> True | Some a \<Rightarrow> a < next_addr s)"

definition wf_state :: "state \<Rightarrow> bool" where
  "wf_state s \<longleftrightarrow> os_environ < next_addr s \<and> allocated s (env (self s))"

text \<open>The contents of an optional override mapping; none is no override at all.\<close>

definition overrides :: "state \<Rightarrow> addr option \<Rightarrow> environment" where
  "overrides s r = (case r of None \<Rightarrow> Map.empty | Some a \<Rightarrow> dicts s a)"

text \<open>
  A process whose environment holds \<open>PATH\<close> and \<open>FOO\<close>, with one override mapping at
  address 1 and a task built with a working directory only; and a system where
  \<open>exit 3\<close> exits with 3, a shell named \<open>nosuchshell\<close> cannot be started, and every
  other command prints \<open>hi\<close>.
\<close>

definition example_state :: state where
  "example_state =
     \<lparr>self = init None (Some ''/tmp'') None None,
      dicts = (\<lambda>a. if a = 0 then [''PATH'' \<mapsto> ''/bin'', ''FOO'' \<mapsto> ''old'']
                   else if a = 1 then [''FOO'' \<mapsto> ''bar''] else Map.empty),
      next_addr = 2, popen_calls = [], open_children = 0\<rparr>"

definition example_system :: system where
  "example_system history call =
     (if hd (args call) = ''nosuchshell'' then SpawnFailed 2
      else if last (args call) = ''cd /tmp && exit 3'' then Exited 3 [0x62, 0x27, 0x0A]
      else Exited 0 [0x68, 0x69])"

text \<open>
  The call \<open>run\<close> makes for a settled command \<open>c\<close> and override reference \<open>r\<close>, read
  off the body: the environment is the copy of \<open>os.environ\<close> updated with the overrides
  (read after the copy exists, at the address the copy took should \<open>r\<close> point there).
\<close>

definition spawn_env :: "state \<Rightarrow> addr option \<Rightarrow> environment" where
  "spawn_env s r = dicts s os_environ ++
     (case r of None \<Rightarrow> Map.empty
      | Some a \<Rightarrow> if a = next_addr s then dicts s os_environ else dicts s a)"

definition spawn_call :: "state \<Rightarrow> string \<Rightarrow> addr option \<Rightarrow> popen_call" where
  "spawn_call s c r =
     \<lparr>args = [shell (self s), ''-c'',
              (case cd (self s) of None \<Rightarrow> c | Some d \<Rightarrow> ''cd '' @ d @ '' && '' @ c)],
      stdin = Inherit, stdout = PIPE, stderr = STDOUT, child_env = spawn_env s r\<rparr>"



section \<open>The body of \<open>run\<close> in closed form\<close>

lemma run_body_None: "run_body sys None r s = (Inl (TypeError missing_command), s)"
  by (simp add: run_body_def)

lemma run_body_Some:
  "run_body sys (Some c) r s =
     (case sys (popen_calls s) (spawn_call s c r) of
        SpawnFailed e \<Rightarrow> Inl (OSError e)
      | Exited rc out \<Rightarrow> if rc \<noteq> 0 then Inl (FAIL (failure_message rc out)) else Inr out,
      s\<lparr>dicts := (dicts s)(next_addr s := spawn_env s r),
        next_addr := Suc (next_addr s),
        popen_calls := popen_calls s @ [spawn_call s c r]\<rparr>)"
  by (cases r; cases "cd (self s)")
     (simp_all add: run_body_def dict_copy_def dict_update_def check_output_def popen_def
        popen_exit_def spawn_call_def spawn_env_def
        split: outcome.split)

lemma spawn_env_allocated:
  "allocated s r \<Longrightarrow> spawn_env s r = dicts s os_environ ++ overrides s r"
  by (cases r) (simp_all add: spawn_env_def allocated_def overrides_def)

lemma allocated_resolved:
  "wf_state s \<Longrightarrow> allocated s env_arg \<Longrightarrow>
   allocated s (defaults_from_attrs env_arg (env (self s)))"
  by (cases env_arg) (simp_all add: wf_state_def defaults_from_attrs_def)

section \<open>The failure message determines the return code and the output\<close>

text \<open>
  The decimal rendering of an integer and the rendering of a bytes value can both be read
  back: different return codes or different outputs never give the same message.
\<close>

lemma digit_char_inj:
  assumes "i < 16" and "j < 16" and "digit_char i = digit_char j"
  shows "i = j"
proof -
  have "distinct ''0123456789abcdef''"
    by simp
  then show ?thesis
    using assms by (simp add: digit_char_def nth_eq_iff_index_eq)
qed

lemma digit_char_decimal: "d < 10 \<Longrightarrow> digit_char d \<in> set ''0123456789''"
proof -
  assume "d < 10"
  then have "d \<in> {0, 1, 2, 3, 4, 5, 6, 7, 8, 9}"
    by auto
  then show ?thesis
    by (auto simp: digit_char_def)
qed

lemma str_nat_small: "n < 10 \<Longrightarrow> str_nat n = [digit_char n]"
  by simp

lemma str_nat_large:
  "\<not> n < 10 \<Longrightarrow> str_nat n = str_nat (n div 10) @ [digit_char (n mod 10)]"
  by simp

declare str_nat.simps [simp del]

lemma str_nat_not_Nil: "str_nat n \<noteq> []"
  by (cases "n < 10") (simp_all add: str_nat_small str_nat_large)

lemma str_nat_decimal: "set (str_nat n) \<subseteq> set ''0123456789''"
proof (induction n rule: str_nat.induct)
  case (1 n)
  show ?case
  proof (cases "n < 10")
    case True
    then show ?thesis
      using digit_char_decimal [of n] by (simp add: str_nat_small)
  next
    case False
    then have "set (str_nat (n div 10)) \<subseteq> set ''0123456789''"
      by (rule "1.IH")
    moreover have "digit_char (n mod 10) \<in> set ''0123456789''"
      by (rule digit_char_decimal) simp
    ultimately show ?thesis
      using False by (simp add: str_nat_large)
  qed
qed

lemma str_nat_inj: "str_nat n = str_nat m \<Longrightarrow> n = m"
proof (induction n arbitrary: m rule: str_nat.induct)
  case (1 n)
  show ?case
  proof (cases "n < 10")
    case n: True
    show ?thesis
    proof (cases "m < 10")
      case True
      then have "digit_char n = digit_char m"
        using n "1.prems" by (simp add: str_nat_small)
      then show ?thesis
        using n True by (intro digit_char_inj) simp_all
    next
      case False
      then have "length (str_nat m) = Suc (length (str_nat (m div 10)))"
        by (simp add: str_nat_large)
      moreover have "length (str_nat n) = 1"
        using n by (simp add: str_nat_small)
      ultimately show ?thesis
        using "1.prems" str_nat_not_Nil [of "m div 10"] by simp
    qed
  next
    case n: False
    show ?thesis
    proof (cases "m < 10")
      case True
      have "length (str_nat n) = Suc (length (str_nat (n div 10)))"
        using n by (simp add: str_nat_large)
      moreover have "length (str_nat m) = 1"
        using True by (simp add: str_nat_small)
      ultimately show ?thesis
        using "1.prems" str_nat_not_Nil [of "n div 10"] by simp
    next
      case False
      have "str_nat (n div 10) @ [digit_char (n mod 10)] =
          str_nat (m div 10) @ [digit_char (m mod 10)]"
        using "1.prems" n False by (simp add: str_nat_large)
      then have high: "str_nat (n div 10) = str_nat (m div 10)"
        and low: "digit_char (n mod 10) = digit_char (m mod 10)"
        by simp_all
      have "n div 10 = m div 10"
        using n high by (rule "1.IH")
      moreover have "n mod 10 = m mod 10"
        using low by (intro digit_char_inj) simp_all
      ultimately show ?thesis
        by (metis div_mult_mod_eq)
    qed
  qed
qed

lemma str_int_no_colon: "CHR '':'' \<notin> set (str_int i)"
proof -
  have "CHR '':'' \<notin> set (str_nat n)" for n
    using str_nat_decimal [of n] by auto
  then show ?thesis
    by (simp add: str_int_def)
qed

lemma str_int_inj: "str_int i = str_int j \<Longrightarrow> i = j"
proof -
  assume eq: "str_int i = str_int j"
  have no_minus: "CHR ''-'' \<notin> set (str_nat n)" for n
    using str_nat_decimal [of n] by auto
  have hd_in: "hd (str_nat n) \<in> set (str_nat n)" for n
    using str_nat_not_Nil [of n] by simp
  consider "i < 0" "j < 0" | "i < 0" "\<not> j < 0" | "\<not> i < 0" "j < 0" | "\<not> i < 0" "\<not> j < 0"
    by blast
  then show ?thesis
  proof cases
    case 1
    then have "str_nat (nat (- i)) = str_nat (nat (- j))"
      using eq by (simp add: str_int_def)
    then have "nat (- i) = nat (- j)"
      by (rule str_nat_inj)
    then show ?thesis
      using 1 by simp
  next
    case 2
    then have "CHR ''-'' # str_nat (nat (- i)) = str_nat (nat j)"
      using eq by (simp add: str_int_def)
    then have "set (CHR ''-'' # str_nat (nat (- i))) = set (str_nat (nat j))"
      by (rule arg_cong)
    then have "CHR ''-'' \<in> set (str_nat (nat j))"
      by auto
    then show ?thesis
      using no_minus by blast
  next
    case 3
    then have "str_nat (nat i) = CHR ''-'' # str_nat (nat (- j))"
      using eq by (simp add: str_int_def)
    then have "set (str_nat (nat i)) = set (CHR ''-'' # str_nat (nat (- j)))"
      by (rule arg_cong)
    then have "CHR ''-'' \<in> set (str_nat (nat i))"
      by auto
    then show ?thesis
      using no_minus by blast
  next
    case 4
    then have "str_nat (nat i) = str_nat (nat j)"
      using eq by (simp add: str_int_def)
    then have "nat i = nat j"
      by (rule str_nat_inj)
    then show ?thesis
      using 4 by simp
  qed
qed


lemma of_char_byte_char: "of_char (byte_char c) = unat c"
proof -
  have "unat c < 2 ^ LENGTH(8)"
    by (rule unsigned_less)
  then show ?thesis
    by (simp add: byte_char_def)
qed

lemma byte_char_eq_iff: "byte_char c = byte_char d \<longleftrightarrow> c = d"
proof
  assume "byte_char c = byte_char d"
  then have "(of_char (byte_char c) :: nat) = of_char (byte_char d)"
    by simp
  then show "c = d"
    by (simp only: of_char_byte_char word_unat_eq_iff)
qed simp

lemma char_as_byte_char:
  "CHR 0x5C = byte_char 0x5C" "CHR ''t'' = byte_char 0x74" "CHR ''n'' = byte_char 0x6E"
  "CHR ''r'' = byte_char 0x72" "CHR ''x'' = byte_char 0x78"
  by (simp_all add: byte_char_def char_of_def bit_Suc_0_iff)

lemma hex_digits_inj:
  fixes c d :: "8 word"
  assumes "digit_char (unat c div 16) = digit_char (unat d div 16)"
    and "digit_char (unat c mod 16) = digit_char (unat d mod 16)"
  shows "c = d"
proof -
  have "unat c < 2 ^ LENGTH(8)" and "unat d < 2 ^ LENGTH(8)"
    by (rule unsigned_less)+
  then have c: "unat c < 256" and d: "unat d < 256"
    by simp_all
  have "unat c div 16 = unat d div 16"
    using assms(1) c d by (intro digit_char_inj) simp_all
  moreover have "unat c mod 16 = unat d mod 16"
    using assms(2) by (intro digit_char_inj) simp_all
  ultimately have "unat c = unat d"
    by (metis div_mult_mod_eq)
  then show ?thesis
    by (simp only: word_unat_eq_iff)
qed

lemma repr_byte_not_Nil: "repr_byte q c \<noteq> []"
  by (simp add: repr_byte_def)

lemma repr_byte_plain:
  assumes "\<not> (c = q \<or> c = 0x5C \<or> c = 0x09 \<or> c = 0x0A \<or> c = 0x0D \<or> c < 0x20 \<or> c \<ge> 0x7F)"
  shows "repr_byte q c = [byte_char c]"
  using assms by (simp add: repr_byte_def)

lemma repr_byte_escaped:
  assumes "c = q \<or> c = 0x5C \<or> c = 0x09 \<or> c = 0x0A \<or> c = 0x0D \<or> c < 0x20 \<or> c \<ge> 0x7F"
  shows "(repr_byte q c = [byte_char 0x5C, byte_char c] \<and> (c = q \<or> c = 0x5C))
       \<or> (repr_byte q c = [byte_char 0x5C, byte_char 0x74] \<and> c = 0x09)
       \<or> (repr_byte q c = [byte_char 0x5C, byte_char 0x6E] \<and> c = 0x0A)
       \<or> (repr_byte q c = [byte_char 0x5C, byte_char 0x72] \<and> c = 0x0D)
       \<or> (repr_byte q c = [byte_char 0x5C, byte_char 0x78,
              digit_char (unat c div 16), digit_char (unat c mod 16)])"
  using assms by (auto simp: repr_byte_def char_as_byte_char)

lemma repr_byte_prefix_free:
  assumes q: "q = 0x22 \<or> q = 0x27"
    and eq: "repr_byte q c @ r = repr_byte q d @ r'"
  shows "c = d \<and> r = r'"
proof -
  let ?esc = "\<lambda>x. x = q \<or> x = 0x5C \<or> x = 0x09 \<or> x = 0x0A \<or> x = 0x0D \<or> x < 0x20 \<or> x \<ge> 0x7F"
  have first: "hd (repr_byte q x) = byte_char 0x5C \<longleftrightarrow> ?esc x" for x
  proof (cases "?esc x")
    case True
    then show ?thesis
      using repr_byte_escaped [of x q] by auto
  next
    case False
    then have "repr_byte q x = [byte_char x]" and "x \<noteq> 0x5C"
      by (simp_all add: repr_byte_def)
    then show ?thesis
      using False by (simp add: byte_char_eq_iff)
  qed
  have "hd (repr_byte q c @ r) = hd (repr_byte q d @ r')"
    using eq by simp
  then have "hd (repr_byte q c) = hd (repr_byte q d)"
    by (simp add: repr_byte_not_Nil)
  then have same: "?esc c \<longleftrightarrow> ?esc d"
    using first [of c] first [of d] by simp
  show ?thesis
  proof (cases "?esc c")
    case False
    then have "repr_byte q c = [byte_char c]" and "repr_byte q d = [byte_char d]"
      using same by (simp_all add: repr_byte_def)
    then show ?thesis
      using eq by (simp add: byte_char_eq_iff)
  next
    case True
    then have d: "?esc d"
      using same by simp
    show ?thesis
      using repr_byte_escaped [OF True] repr_byte_escaped [OF d] q eq
      apply (elim disjE conjE)
      apply (simp_all add: byte_char_eq_iff)
      apply (elim conjE, erule (1) hex_digits_inj)+
      done
  qed
qed

lemma repr_body_inj:
  assumes "q = 0x22 \<or> q = 0x27"
  shows "concat (map (repr_byte q) b) = concat (map (repr_byte q) b') \<Longrightarrow> b = b'"
proof (induction b arbitrary: b')
  case Nil
  then show ?case
    by (cases b') (simp_all add: repr_byte_not_Nil)
next
  case (Cons c b)
  show ?case
  proof (cases b')
    case Nil
    then show ?thesis
      using Cons.prems by (simp add: repr_byte_not_Nil)
  next
    case (Cons d b'')
    then have "repr_byte q c @ concat (map (repr_byte q) b) =
        repr_byte q d @ concat (map (repr_byte q) b'')"
      using Cons.prems by simp
    then have "c = d \<and> concat (map (repr_byte q) b) = concat (map (repr_byte q) b'')"
      using assms by (intro repr_byte_prefix_free)
    then show ?thesis
      using Cons Cons.IH by simp
  qed
qed

lemma repr_quote_cases: "repr_quote b = 0x22 \<or> repr_quote b = 0x27"
  by (simp add: repr_quote_def)

lemma repr_bytes_inj: "repr_bytes b = repr_bytes b' \<Longrightarrow> b = b'"
proof -
  assume eq: "repr_bytes b = repr_bytes b'"
  then have quote: "repr_quote b = repr_quote b'"
    by (simp add: repr_bytes_def byte_char_eq_iff)
  then have "concat (map (repr_byte (repr_quote b)) b) =
      concat (map (repr_byte (repr_quote b)) b')"
    using eq by (simp add: repr_bytes_def)
  then show ?thesis
    using repr_quote_cases by (rule repr_body_inj [rotated])
qed

lemma split_at_fresh:
  "a \<notin> set xs \<Longrightarrow> a \<notin> set ys \<Longrightarrow> xs @ a # r = ys @ a # r' \<Longrightarrow> xs = ys \<and> r = r'"
proof (induction xs arbitrary: ys)
  case Nil
  then show ?case
    by (cases ys) auto
next
  case (Cons x xs)
  then show ?case
    by (cases ys) auto
qed

lemma failure_message_inj:
  assumes "failure_message rc out = failure_message rc' out'"
  shows "rc = rc' \<and> out = out'"
proof -
  have "str_int rc @ CHR '':'' # (CHR '' '' # repr_bytes out) =
      str_int rc' @ CHR '':'' # (CHR '' '' # repr_bytes out')"
    using assms by (simp add: failure_message_def)
  then have "str_int rc = str_int rc' \<and> CHR '' '' # repr_bytes out = CHR '' '' # repr_bytes out'"
    by (rule split_at_fresh [OF str_int_no_colon str_int_no_colon])
  then show ?thesis
    by (simp add: str_int_inj repr_bytes_inj)
qed

lemmas example_defs =
  example_state_def example_system_def init_def defaults_from_attrs_def os_environ_def
  allocated_def wf_state_def overrides_def spawn_call_def spawn_env_def

section \<open>Exit-code classification\<close>

text \<open>
  C1. An invocation of \<open>run\<close> that has a command makes exactly one call to the spawn
  primitive, the call read off its body, and what it does next is decided by the answer
  to that call alone. When the child exits with return code 0, \<open>run\<close> returns the
  captured bytes as they are. When it exits with any other return code, \<open>run\<close> raises
  \<open>FAIL\<close> whose message is \<open>Command failed with exit code\<close>, the return code in
  decimal, a colon and the captured output as Python prints bytes. \<open>FAIL\<close> is raised
  exactly when the child exited with a return code other than 0. Different return codes
  or outputs never give the same message, so the message carries both exactly.
\<close>

theorem run_exit_code_classification:
  assumes "defaults_from_attrs command_arg (command (self s)) = Some c"
    and "call = spawn_call s c (defaults_from_attrs env_arg (env (self s)))"
  shows "popen_calls (snd (run sys command_arg env_arg s)) = popen_calls s @ [call]
       \<and> (\<forall>out. sys (popen_calls s) call = Exited 0 out \<longrightarrow>
             fst (run sys command_arg env_arg s) = Inr out)
       \<and> (\<forall>rc out. sys (popen_calls s) call = Exited rc out \<and> rc \<noteq> 0 \<longrightarrow>
             fst (run sys command_arg env_arg s) =
               Inl (FAIL (''Command failed with exit code '' @ str_int rc @ '': ''
                            @ repr_bytes out)))
       \<and> ((\<exists>m. fst (run sys command_arg env_arg s) = Inl (FAIL m)) \<longleftrightarrow>
            (\<exists>rc out. sys (popen_calls s) call = Exited rc out \<and> rc \<noteq> 0))
       \<and> (\<forall>rc out rc' out'.
             ''Command failed with exit code '' @ str_int rc' @ '': '' @ repr_bytes out' =
             ''Command failed with exit code '' @ str_int rc @ '': '' @ repr_bytes out
             \<longrightarrow> rc' = rc \<and> out' = out)"
proof -
  have result: "run sys command_arg env_arg s =
      (case sys (popen_calls s) call of
         SpawnFailed e \<Rightarrow> Inl (OSError e)
       | Exited rc out \<Rightarrow> if rc \<noteq> 0 then Inl (FAIL (failure_message rc out)) else Inr out,
       s\<lparr>dicts := (dicts s)(next_addr s :=
            spawn_env s (defaults_from_attrs env_arg (env (self s)))),
         next_addr := Suc (next_addr s),
         popen_calls := popen_calls s @ [call]\<rparr>)"
    using assms by (simp add: run_def run_body_Some)
  have calls: "popen_calls (snd (run sys command_arg env_arg s)) = popen_calls s @ [call]"
    by (simp add: result)
  have zero: "\<forall>out. sys (popen_calls s) call = Exited 0 out \<longrightarrow>
      fst (run sys command_arg env_arg s) = Inr out"
    by (simp add: result)
  have nonzero: "\<forall>rc out. sys (popen_calls s) call = Exited rc out \<and> rc \<noteq> 0 \<longrightarrow>
      fst (run sys command_arg env_arg s) =
        Inl (FAIL (''Command failed with exit code '' @ str_int rc @ '': '' @ repr_bytes out))"
    by (simp add: result failure_message_def)
  have iff: "(\<exists>m. fst (run sys command_arg env_arg s) = Inl (FAIL m)) \<longleftrightarrow>
      (\<exists>rc out. sys (popen_calls s) call = Exited rc out \<and> rc \<noteq> 0)"
    by (cases "sys (popen_calls s) call") (simp_all add: result)
  have "\<forall>rc out rc' out'. failure_message rc' out' = failure_message rc out
      \<longrightarrow> rc' = rc \<and> out' = out"
    using failure_message_inj by blast
  then have inj: "\<forall>rc out rc' out'.
      ''Command failed with exit code '' @ str_int rc' @ '': '' @ repr_bytes out' =
      ''Command failed with exit code '' @ str_int rc @ '': '' @ repr_bytes out
      \<longrightarrow> rc' = rc \<and> out' = out"
    by (simp only: failure_message_def)
  show ?thesis
    by (intro conjI) (fact calls zero nonzero iff inj)+
qed

theorem run_exit_code_classification_witness:
  "fst (run example_system (Some ''exit 3'') None example_state) =
     Inl (FAIL (''Command failed with exit code 3: b'' @ [CHR 0x22] @ ''b''
                  @ [CHR 0x27, CHR 0x5C] @ ''n'' @ [CHR 0x22]))
   \<and> map args (popen_calls (snd (run example_system (Some ''exit 3'') None example_state))) =
       [[''bash'', ''-c'', ''cd /tmp && exit 3'']]
   \<and> fst (run example_system (Some ''pwd'') None example_state) = Inr [0x68, 0x69]"
proof -
  let ?r = "defaults_from_attrs None (env (self example_state))"
  let ?failing = "spawn_call example_state ''exit 3'' ?r"
  let ?passing = "spawn_call example_state ''pwd'' ?r"
  have resolved: "defaults_from_attrs (Some c) (command (self example_state)) = Some c" for c
    by (simp add: defaults_from_attrs_def)
  have failed: "example_system (popen_calls example_state) ?failing =
      Exited 3 [0x62, 0x27, 0x0A] \<and> (3::int) \<noteq> 0"
    by (simp add: example_defs)
  have passed: "example_system (popen_calls example_state) ?passing = Exited 0 [0x68, 0x69]"
    by (simp add: example_defs)
  have message: "''Command failed with exit code '' @ str_int 3 @ '': ''
        @ repr_bytes [0x62, 0x27, 0x0A] =
      ''Command failed with exit code 3: b'' @ [CHR 0x22] @ ''b''
        @ [CHR 0x27, CHR 0x5C] @ ''n'' @ [CHR 0x22]"
    by (simp add: str_int_def repr_bytes_def repr_quote_def repr_byte_def byte_char_def
          digit_char_def char_of_def bit_Suc_0_iff str_nat_small)
  have args: "args ?failing = [''bash'', ''-c'', ''cd /tmp && exit 3'']"
    and calls: "popen_calls example_state = []"
    by (simp_all add: example_defs)
  note failing = run_exit_code_classification [of "Some ''exit 3''" example_state "''exit 3''"
      ?failing None example_system, OF resolved refl]
  note passing = run_exit_code_classification [of "Some ''pwd''" example_state "''pwd''"
      ?passing None example_system, OF resolved refl]
  have "fst (run example_system (Some ''exit 3'') None example_state) =
      Inl (FAIL (''Command failed with exit code '' @ str_int 3 @ '': ''
                   @ repr_bytes [0x62, 0x27, 0x0A]))"
    using failing failed by blast
  then have first: "fst (run example_system (Some ''exit 3'') None example_state) =
      Inl (FAIL (''Command failed with exit code 3: b'' @ [CHR 0x22] @ ''b''
                   @ [CHR 0x27, CHR 0x5C] @ ''n'' @ [CHR 0x22]))"
    by (simp only: message)
  have "popen_calls (snd (run example_system (Some ''exit 3'') None example_state)) =
      popen_calls example_state @ [?failing]"
    using failing by (rule conjunct1)
  then have second:
    "map args (popen_calls (snd (run example_system (Some ''exit 3'') None example_state))) =
      [[''bash'', ''-c'', ''cd /tmp && exit 3'']]"
    by (simp add: args calls)
  have third: "fst (run example_system (Some ''pwd'') None example_state) = Inr [0x68, 0x69]"
    using passing passed by blast
  show ?thesis
    by (intro conjI) (fact first second third)+
qed

section \<open>The missing command\<close>

text \<open>
  C2. When no command is given at the call and none was given at construction, \<open>run\<close>
  raises \<open>TypeError\<close>, which is not the \<open>FAIL\<close> raised for a return code other than 0,
  and the state it leaves is the state it found: no call to the spawn primitive was made.
\<close>

theorem run_missing_command:
  assumes "command (self s) = None"
  shows "run sys None env_arg s = (Inl (TypeError missing_command), s)
       \<and> (\<forall>m. fst (run sys None env_arg s) \<noteq> Inl (FAIL m))
       \<and> popen_calls (snd (run sys None env_arg s)) = popen_calls s"
  using assms by (simp add: run_def defaults_from_attrs_def run_body_None)

theorem run_missing_command_witness:
  "run example_system None (Some 1) example_state =
     (Inl (TypeError missing_command), example_state)
   \<and> popen_calls (snd (run example_system None (Some 1) example_state)) = []"
  using run_missing_command [of example_state example_system "Some 1"]
  by (simp add: example_state_def init_def)

section \<open>The composed command\<close>




section \<open>The environment of the child\<close>

text \<open>
  C4. For a settled command and any override mapping \<open>O\<close> (none at all included), the
  environment handed to the child is the contents of \<open>os.environ\<close> with every key of
  \<open>O\<close> set to the value \<open>O\<close> gives it: a key of \<open>O\<close> has \<open>O\<close>'s value, replacing an
  inherited one of the same name; a key not in \<open>O\<close> has what \<open>os.environ\<close> has; no
  inherited variable disappears; and with no overrides the environment is that of
  \<open>os.environ\<close>.
\<close>

theorem run_child_environment:
  assumes "defaults_from_attrs command_arg (command (self s)) = Some c"
    and "wf_state s" and "allocated s env_arg"
  shows "\<exists>E. map child_env (popen_calls (snd (run sys command_arg env_arg s))) =
               map child_env (popen_calls s) @ [E]
           \<and> E = dicts s os_environ ++ overrides s (defaults_from_attrs env_arg (env (self s)))
           \<and> (\<forall>k v. overrides s (defaults_from_attrs env_arg (env (self s))) k = Some v
                  \<longrightarrow> E k = Some v)
           \<and> (\<forall>k. overrides s (defaults_from_attrs env_arg (env (self s))) k = None
                  \<longrightarrow> E k = dicts s os_environ k)
           \<and> (\<forall>k. dicts s os_environ k \<noteq> None \<longrightarrow> E k \<noteq> None)
           \<and> (defaults_from_attrs env_arg (env (self s)) = None \<longrightarrow> E = dicts s os_environ)"
proof -
  let ?r = "defaults_from_attrs env_arg (env (self s))"
  let ?E = "dicts s os_environ ++ overrides s ?r"
  have "allocated s ?r"
    using assms(2,3) by (rule allocated_resolved)
  then have "spawn_env s ?r = ?E"
    by (rule spawn_env_allocated)
  then have calls: "map child_env (popen_calls (snd (run sys command_arg env_arg s))) =
      map child_env (popen_calls s) @ [?E]"
    using assms(1) by (simp add: run_def run_body_Some spawn_call_def)
  have set: "\<forall>k v. overrides s ?r k = Some v \<longrightarrow> ?E k = Some v"
    by simp
  have kept: "\<forall>k. overrides s ?r k = None \<longrightarrow> ?E k = dicts s os_environ k"
    by (simp add: map_add_def)
  have present: "\<forall>k. dicts s os_environ k \<noteq> None \<longrightarrow> ?E k \<noteq> None"
    by (simp add: map_add_def split: option.split)
  have absent: "?r = None \<longrightarrow> ?E = dicts s os_environ"
    by (simp add: overrides_def)
  show ?thesis
  proof (intro exI conjI)
    show "map child_env (popen_calls (snd (run sys command_arg env_arg s))) =
      map child_env (popen_calls s) @ [?E]"
      by (fact calls)
    show "?E = ?E"
      by (rule refl)
  qed (fact set kept present absent)+
qed

theorem run_child_environment_witness:
  "\<exists>E. map child_env (popen_calls (snd (run example_system (Some ''pwd'') (Some 1) example_state)))
          = [E]
        \<and> E ''FOO'' = Some ''bar'' \<and> E ''PATH'' = Some ''/bin'' \<and> E ''HOME'' = None"
  using run_child_environment [of "Some ''pwd''" example_state "''pwd''" "Some 1" example_system]
  by (simp add: example_state_def init_def defaults_from_attrs_def wf_state_def allocated_def
        os_environ_def overrides_def)


section \<open>The call to the spawn primitive\<close>

text \<open>
  C5, as the code has it. Every invocation with a settled command makes exactly one call
  to the spawn primitive: the argument vector is the shell, \<open>-c\<close> and the composed
  command; the environment is the composed one, passed as it is; the standard output is
  a pipe and the standard error goes to the standard output, so one buffer holds both;
  and \<open>stdin\<close> is not passed, so the child shares the standard input of the parent. A
  task built without a shell uses \<open>bash\<close>.
\<close>

theorem run_popen_call:
  assumes "defaults_from_attrs command_arg (command (self s)) = Some c"
    and "wf_state s" and "allocated s env_arg"
  shows "popen_calls (snd (run sys command_arg env_arg s)) =
           popen_calls s @
             [\<lparr>args = [shell (self s), ''-c'',
                       (case cd (self s) of None \<Rightarrow> c | Some d \<Rightarrow> ''cd '' @ d @ '' && '' @ c)],
               stdin = Inherit, stdout = PIPE, stderr = STDOUT,
               child_env = dicts s os_environ
                             ++ overrides s (defaults_from_attrs env_arg (env (self s)))\<rparr>]
       \<and> shell (init command0 cd0 env0 None) = ''bash''"
proof -
  have "allocated s (defaults_from_attrs env_arg (env (self s)))"
    using assms(2,3) by (rule allocated_resolved)
  then show ?thesis
    using assms(1) by (simp add: run_def run_body_Some spawn_call_def spawn_env_allocated init_def)
qed

theorem run_popen_call_witness:
  "map stdin (popen_calls (snd (run example_system (Some ''pwd'') (Some 1) example_state)))
     = [Inherit]
   \<and> map stderr (popen_calls (snd (run example_system (Some ''pwd'') (Some 1) example_state)))
     = [STDOUT]
   \<and> map args (popen_calls (snd (run example_system (Some ''pwd'') (Some 1) example_state)))
     = [[''bash'', ''-c'', ''cd /tmp && pwd'']]"
  using run_popen_call [of "Some ''pwd''" example_state "''pwd''" "Some 1" example_system]
  by (simp add: example_state_def init_def defaults_from_attrs_def wf_state_def allocated_def
        os_environ_def)

text \<open>
  C5, as the spec has it, asks for a child that inherits no standard input. The call made
  for \<open>pwd\<close> in the example state leaves \<open>stdin\<close> at its default, which is to inherit.
\<close>

theorem run_stdin_counterexample:
  "length (popen_calls (snd (run example_system (Some ''pwd'') None example_state))) = 1
   \<and> \<not> stdin (last (popen_calls (snd (run example_system (Some ''pwd'') None example_state))))
         \<noteq> Inherit"
  by (simp add: run_def run_body_Some example_defs)

section \<open>Failure to start the child\<close>

text \<open>
  C6. An invocation of \<open>run\<close> that has a command makes exactly one call to the spawn
  primitive, the call read off its body. When the operating system cannot start that
  child (the shell is not found, say), \<open>run\<close> returns nothing: it raises the
  \<open>OSError\<close> of the spawn primitive, with the error number the system gave, which is
  neither \<open>FAIL\<close> nor the \<open>TypeError\<close> of a missing command.
\<close>

theorem run_spawn_failure_surfaces:
  assumes "defaults_from_attrs command_arg (command (self s)) = Some c"
    and "call = spawn_call s c (defaults_from_attrs env_arg (env (self s)))"
    and "sys (popen_calls s) call = SpawnFailed e"
  shows "popen_calls (snd (run sys command_arg env_arg s)) = popen_calls s @ [call]
       \<and> fst (run sys command_arg env_arg s) = Inl (OSError e)
       \<and> (\<forall>out. fst (run sys command_arg env_arg s) \<noteq> Inr out)
       \<and> (\<forall>m. fst (run sys command_arg env_arg s) \<noteq> Inl (FAIL m))
       \<and> (\<forall>m. fst (run sys command_arg env_arg s) \<noteq> Inl (TypeError m))"
  using assms by (simp add: run_def run_body_Some)

theorem run_spawn_failure_surfaces_witness:
  "fst (run example_system (Some ''pwd'') None
          (example_state\<lparr>self := init None None None (Some ''nosuchshell'')\<rparr>)) = Inl (OSError 2)
   \<and> map args (popen_calls (snd (run example_system (Some ''pwd'') None
          (example_state\<lparr>self := init None None None (Some ''nosuchshell'')\<rparr>)))) =
       [[''nosuchshell'', ''-c'', ''pwd'']]"
proof -
  let ?s = "example_state\<lparr>self := init None None None (Some ''nosuchshell'')\<rparr>"
  let ?call = "spawn_call ?s ''pwd'' (defaults_from_attrs None (env (self ?s)))"
  have resolved: "defaults_from_attrs (Some ''pwd'') (command (self ?s)) = Some ''pwd''"
    by (simp add: defaults_from_attrs_def)
  have failed: "example_system (popen_calls ?s) ?call = SpawnFailed 2"
    by (simp add: example_defs)
  have "args ?call = [''nosuchshell'', ''-c'', ''pwd'']" and "popen_calls ?s = []"
    by (simp_all add: example_defs)
  then show ?thesis
    using run_spawn_failure_surfaces [of "Some ''pwd''" ?s "''pwd''" ?call None example_system 2,
        OF resolved refl failed]
    by simp
qed

section \<open>Call-time values and construction-time defaults\<close>

text \<open>
  C7. For the command and for the override mapping alike: a value given at the call is
  the one the body of \<open>run\<close> receives, whatever the task holds; a value omitted at the
  call is replaced by the one the task holds; and the body receives none exactly when
  the call gives none and the task holds none.
\<close>

theorem run_two_tier_resolution:
  assumes "wf_state s" and "allocated s env_arg"
  shows "run sys command_arg env_arg s =
           run_body sys (defaults_from_attrs command_arg (command (self s)))
             (defaults_from_attrs env_arg (env (self s))) s
       \<and> (\<forall>c. command_arg = Some c \<longrightarrow>
             defaults_from_attrs command_arg (command (self s)) = Some c)
       \<and> (command_arg = None \<longrightarrow>
             defaults_from_attrs command_arg (command (self s)) = command (self s))
       \<and> (\<forall>a. env_arg = Some a \<longrightarrow>
             defaults_from_attrs env_arg (env (self s)) = Some a)
       \<and> (env_arg = None \<longrightarrow>
             defaults_from_attrs env_arg (env (self s)) = env (self s))
       \<and> (\<forall>c. command_arg = Some c \<longrightarrow>
             map (\<lambda>call. last (args call)) (popen_calls (snd (run sys command_arg env_arg s))) =
               map (\<lambda>call. last (args call)) (popen_calls s) @
                 [case cd (self s) of None \<Rightarrow> c | Some d \<Rightarrow> ''cd '' @ d @ '' && '' @ c])
       \<and> (\<forall>c. command_arg = None \<and> command (self s) = Some c \<longrightarrow>
             map (\<lambda>call. last (args call)) (popen_calls (snd (run sys command_arg env_arg s))) =
               map (\<lambda>call. last (args call)) (popen_calls s) @
                 [case cd (self s) of None \<Rightarrow> c | Some d \<Rightarrow> ''cd '' @ d @ '' && '' @ c])
       \<and> (command_arg = None \<and> command (self s) = None \<longrightarrow>
             run sys command_arg env_arg s = (Inl (TypeError missing_command), s))
       \<and> (\<forall>c a. defaults_from_attrs command_arg (command (self s)) = Some c \<and> env_arg = Some a
             \<longrightarrow> map child_env (popen_calls (snd (run sys command_arg env_arg s))) =
                   map child_env (popen_calls s) @ [dicts s os_environ ++ dicts s a])
       \<and> (\<forall>c a. defaults_from_attrs command_arg (command (self s)) = Some c
               \<and> env_arg = None \<and> env (self s) = Some a
             \<longrightarrow> map child_env (popen_calls (snd (run sys command_arg env_arg s))) =
                   map child_env (popen_calls s) @ [dicts s os_environ ++ dicts s a])
       \<and> (\<forall>c. defaults_from_attrs command_arg (command (self s)) = Some c
               \<and> env_arg = None \<and> env (self s) = None
             \<longrightarrow> map child_env (popen_calls (snd (run sys command_arg env_arg s))) =
                   map child_env (popen_calls s) @ [dicts s os_environ])"
proof -
  let ?r = "defaults_from_attrs env_arg (env (self s))"
  have "allocated s ?r"
    using assms by (rule allocated_resolved)
  then have env_eq: "spawn_env s ?r = dicts s os_environ ++ overrides s ?r"
    by (rule spawn_env_allocated)
  show ?thesis
  proof (cases command_arg)
    case None
    then show ?thesis
      using env_eq
      by (cases env_arg; cases "command (self s)"; cases "env (self s)")
         (simp_all add: run_def defaults_from_attrs_def run_body_None run_body_Some
            spawn_call_def overrides_def)
  next
    case (Some c)
    then show ?thesis
      using env_eq
      by (cases env_arg; cases "env (self s)")
         (simp_all add: run_def defaults_from_attrs_def run_body_Some spawn_call_def
            overrides_def)
  qed
qed

theorem run_two_tier_resolution_witness:
  "map (\<lambda>call. last (args call))
     (popen_calls (snd (run example_system (Some ''pwd'') None
        (example_state\<lparr>self := init (Some ''ls'') None (Some 1) None\<rparr>)))) = [''pwd'']
   \<and> map (\<lambda>call. last (args call))
     (popen_calls (snd (run example_system None None
        (example_state\<lparr>self := init (Some ''ls'') None (Some 1) None\<rparr>)))) = [''ls'']
   \<and> map (\<lambda>call. child_env call ''FOO'')
     (popen_calls (snd (run example_system None None
        (example_state\<lparr>self := init (Some ''ls'') None (Some 1) None\<rparr>)))) = [Some ''bar'']
   \<and> run example_system None None example_state =
        (Inl (TypeError missing_command), example_state)"
  using
    run_two_tier_resolution [of "example_state\<lparr>self := init (Some ''ls'') None (Some 1) None\<rparr>"
      None example_system "Some ''pwd''"]
    run_two_tier_resolution [of "example_state\<lparr>self := init (Some ''ls'') None (Some 1) None\<rparr>"
      None example_system None]
    run_two_tier_resolution [of example_state None example_system None]
  by (simp add: run_def run_body_None run_body_Some example_defs)

section \<open>Two invocations in a row\<close>

text \<open>
  C8. Take a task, a command and overrides, and call \<open>run\<close> twice in a row. If the
  system answers the calls of the second invocation as it answered those of the first
  (the child has no side effect that changes its own return code or output), the second
  invocation returns or raises exactly what the first did: the same classification, the
  same bytes, the same message.
\<close>

theorem run_twice_same_result:
  assumes "wf_state s" and "allocated s env_arg"
    and "run sys command_arg env_arg s = (r1, s1)"
    and "run sys command_arg env_arg s1 = (r2, s2)"
    and "\<forall>call. sys (popen_calls s1) call = sys (popen_calls s) call"
  shows "r1 = r2"
proof (cases "defaults_from_attrs command_arg (command (self s))")
  case None
  then have "s1 = s" and "r1 = Inl (TypeError missing_command)"
    using assms(3) by (simp_all add: run_def run_body_None)
  then show ?thesis
    using assms(3,4) by simp
next
  case (Some c)
  let ?r = "defaults_from_attrs env_arg (env (self s))"
  have s1: "s1 = s\<lparr>dicts := (dicts s)(next_addr s := spawn_env s ?r),
                   next_addr := Suc (next_addr s),
                   popen_calls := popen_calls s @ [spawn_call s c ?r]\<rparr>"
    and r1: "r1 = (case sys (popen_calls s) (spawn_call s c ?r) of
                SpawnFailed e \<Rightarrow> Inl (OSError e)
              | Exited rc out \<Rightarrow>
                  if rc \<noteq> 0 then Inl (FAIL (failure_message rc out)) else Inr out)"
    using assms(3) Some by (simp_all add: run_def run_body_Some)
  have alloc: "allocated s ?r"
    using assms(1,2) by (rule allocated_resolved)
  have "os_environ \<noteq> next_addr s"
    using assms(1) by (simp add: wf_state_def)
  then have "spawn_env s1 ?r = spawn_env s ?r"
    using alloc by (cases ?r) (simp_all add: s1 spawn_env_def allocated_def)
  then have "spawn_call s1 c ?r = spawn_call s c ?r"
    by (simp add: spawn_call_def s1)
  moreover have "self s1 = self s"
    by (simp add: s1)
  ultimately have "r2 = (case sys (popen_calls s1) (spawn_call s c ?r) of
                SpawnFailed e \<Rightarrow> Inl (OSError e)
              | Exited rc out \<Rightarrow>
                  if rc \<noteq> 0 then Inl (FAIL (failure_message rc out)) else Inr out)"
    using assms(4) Some by (simp add: run_def run_body_Some)
  then show ?thesis
    using assms(5) r1 by simp
qed

theorem run_twice_same_result_witness:
  "fst (run example_system (Some ''exit 3'') (Some 1)
          (snd (run example_system (Some ''exit 3'') (Some 1) example_state)))
     = fst (run example_system (Some ''exit 3'') (Some 1) example_state)"
  using run_twice_same_result [of example_state "Some 1" example_system "Some ''exit 3''"
      "fst (run example_system (Some ''exit 3'') (Some 1) example_state)"
      "snd (run example_system (Some ''exit 3'') (Some 1) example_state)"
      "fst (run example_system (Some ''exit 3'') (Some 1)
              (snd (run example_system (Some ''exit 3'') (Some 1) example_state)))"
      "snd (run example_system (Some ''exit 3'') (Some 1)
              (snd (run example_system (Some ''exit 3'') (Some 1) example_state)))"]
  by (simp add: wf_state_def allocated_def os_environ_def example_state_def init_def
        example_system_def)

section \<open>What an invocation leaves behind\<close>

text \<open>
  C9. An invocation of \<open>run\<close> leaves the attributes of the task (command, working
  directory, override mapping, shell) as they were; it leaves every dict that existed
  before the call as it was, \<open>os.environ\<close> and the override mapping given at the call
  or held by the task among them, since the environment is composed in a copy; and it
  holds no more children or pipes after the call than before it.
\<close>

theorem run_frame:
  assumes "wf_state s" and "allocated s env_arg"
  shows "self (snd (run sys command_arg env_arg s)) = self s
       \<and> dicts (snd (run sys command_arg env_arg s)) os_environ = dicts s os_environ
       \<and> (\<forall>a. env_arg = Some a \<longrightarrow> dicts (snd (run sys command_arg env_arg s)) a = dicts s a)
       \<and> (\<forall>a. env (self s) = Some a \<longrightarrow>
             dicts (snd (run sys command_arg env_arg s)) a = dicts s a)
       \<and> (\<forall>a. a < next_addr s \<longrightarrow> dicts (snd (run sys command_arg env_arg s)) a = dicts s a)
       \<and> open_children (snd (run sys command_arg env_arg s)) = open_children s"
  using assms
  by (cases "defaults_from_attrs command_arg (command (self s))")
     (auto simp: run_def run_body_None run_body_Some wf_state_def allocated_def)

theorem run_frame_witness:
  "dicts (snd (run example_system (Some ''pwd'') (Some 1) example_state)) 0 ''FOO'' = Some ''old''
   \<and> dicts (snd (run example_system (Some ''pwd'') (Some 1) example_state)) 1 ''FOO'' = Some ''bar''
   \<and> self (snd (run example_system (Some ''pwd'') (Some 1) example_state)) = self example_state
   \<and> open_children (snd (run example_system (Some ''pwd'') (Some 1) example_state)) = 0"
  using run_frame [of example_state "Some 1" example_system "Some ''pwd''"]
  by (simp add: wf_state_def allocated_def os_environ_def example_state_def init_def)

section \<open>The empty command\<close>

text \<open>
  C10. When the settled command is the empty string, given at the call or held by the
  task, \<open>run\<close> does not raise the \<open>TypeError\<close> of the missing command and makes its
  call to the spawn primitive; that \<open>TypeError\<close> is raised exactly when the call gives
  no command and the task holds none.
\<close>

theorem run_empty_command_spawns:
  "(defaults_from_attrs command_arg (command (self s)) = Some [] \<longrightarrow>
      (\<forall>m. fst (run sys command_arg env_arg s) \<noteq> Inl (TypeError m))
      \<and> map args (popen_calls (snd (run sys command_arg env_arg s))) =
          map args (popen_calls s) @
            [[shell (self s), ''-c'',
              (case cd (self s) of None \<Rightarrow> [] | Some d \<Rightarrow> ''cd '' @ d @ '' && '')]])
   \<and> ((\<exists>m. fst (run sys command_arg env_arg s) = Inl (TypeError m))
        \<longleftrightarrow> command_arg = None \<and> command (self s) = None)"
proof (cases "defaults_from_attrs command_arg (command (self s))")
  case None
  then show ?thesis
    by (cases command_arg) (simp_all add: run_def run_body_None defaults_from_attrs_def)
next
  case (Some c)
  then have given: "\<not> (command_arg = None \<and> command (self s) = None)"
    by (cases command_arg) (simp_all add: defaults_from_attrs_def)
  have no_type_error: "\<forall>m. fst (run sys command_arg env_arg s) \<noteq> Inl (TypeError m)"
    using Some by (simp add: run_def run_body_Some split: outcome.split)
  have calls: "map args (popen_calls (snd (run sys command_arg env_arg s))) =
      map args (popen_calls s) @
        [[shell (self s), ''-c'',
          (case cd (self s) of None \<Rightarrow> c | Some d \<Rightarrow> ''cd '' @ d @ '' && '' @ c)]]"
    using Some by (simp add: run_def run_body_Some spawn_call_def)
  show ?thesis
  proof (intro conjI impI)
    show "\<forall>m. fst (run sys command_arg env_arg s) \<noteq> Inl (TypeError m)"
      by (fact no_type_error)
  next
    assume "defaults_from_attrs command_arg (command (self s)) = Some []"
    then have "c = []"
      using Some by simp
    then show "map args (popen_calls (snd (run sys command_arg env_arg s))) =
      map args (popen_calls s) @
        [[shell (self s), ''-c'',
          (case cd (self s) of None \<Rightarrow> [] | Some d \<Rightarrow> ''cd '' @ d @ '' && '')]]"
      using calls by (cases "cd (self s)") simp_all
  next
    show "(\<exists>m. fst (run sys command_arg env_arg s) = Inl (TypeError m))
        \<longleftrightarrow> command_arg = None \<and> command (self s) = None"
      using given no_type_error by blast
  qed
qed

theorem run_empty_command_spawns_witness:
  "map args (popen_calls (snd (run example_system (Some []) None example_state)))
     = [[''bash'', ''-c'', ''cd /tmp && '']]
   \<and> fst (run example_system (Some []) None example_state) = Inr [0x68, 0x69]
   \<and> map args (popen_calls (snd (run example_system None None
        (example_state\<lparr>self := init (Some []) None None None\<rparr>))))
     = [[''bash'', ''-c'', []]]"
  using run_empty_command_spawns [of "Some []" example_state example_system None]
    run_empty_command_spawns [of None "example_state\<lparr>self := init (Some []) None None None\<rparr>"
      example_system None]
  by (simp add: run_def run_body_Some example_defs)

end
